theory Spec2Isabelle
  imports Complex_Main "HOL-Library.Sublist"
begin

section \<open>Record model (src/models/task.go)\<close>

text \<open>
  The two structs of package \<open>models\<close>. Go's \<open>int\<close> fields are never used in
  arithmetic, only copied into the payload, so they are unbounded integers here.
  The two structs share field names; those of \<open>Task\<close> are written qualified
  (\<open>Task.Name\<close>), those of \<open>UserStory\<close> plainly.
\<close>

record Task =
  Name :: string
  Type :: string
  Description :: string
  Owner :: string
  State :: string
  Priority :: int
  Estimate :: int

record UserStory =
  Name :: string
  Type :: string
  Description :: string
  Owner :: string
  State :: string
  Priority :: int
  Area :: string
  Path :: string
  Tasks :: "Task list"
  Iteraction :: "string option"
  Team :: string

section \<open>Configuration, wire format and the remote service\<close>

text \<open>
  The three values both creation functions read through
  \<open>viper.GetString("devops.organization" | "devops.project" | "devops.pat")\<close>.
\<close>

record config =
  organization :: string
  project :: string
  pat :: string

text \<open>
  A value decoded by \<open>encoding/json\<close> into \<open>interface{}\<close>: a JSON number
  becomes a \<open>float64\<close>, modelled as an exact rational (rounding and the range of
  \<open>float64\<close> are not modelled).
\<close>

datatype json =
    JNull
  | JBool bool
  | JNumber rat
  | JString string
  | JArray "json list"
  | JObject "(string \<times> json) list"

text \<open>
  The values the payload literals of \<open>main.go\<close> carry under the key \<open>"value"\<close>:
  a string, an int, or the relation object of \<open>createTask\<close> with its keys
  \<open>rel\<close>, \<open>url\<close> and \<open>attributes.comment\<close>.
\<close>

datatype pvalue =
    VString string
  | VInt int
  | VRelation (rel: string) (rel_url: string) (rel_comment: string)

datatype operation = Operation (op: string) (path: string) (val: pvalue)

record request =
  http_method :: string
  url :: string
  content_type :: string
  auth_user :: string
  auth_password :: string
  payload :: "operation list"

text \<open>
  What \<open>json.NewDecoder(resp.Body).Decode(&m)\<close> with \<open>m : map[string]interface{}\<close>
  makes of a response body: a decode error, or the decoded map (an association list
  read with \<open>map_of\<close>).
\<close>

datatype body = Undecodable string | Decoded "(string \<times> json) list"

text \<open>What \<open>client.Do(req)\<close> returns: a transport error, or a response.\<close>

datatype reply =
    TransportError string
  | Response (status_code: int) (status: string) (resp_body: body)

type_synonym exchange = "request \<times> reply"

text \<open>
  The external collaborators: the remote service behind \<open>client.Do\<close>, whose answer
  may depend on everything sent before, and the two library calls that can fail
  before anything is sent, \<open>json.Marshal\<close> and \<open>http.NewRequestWithContext\<close>
  (\<open>None\<close>: no error).
\<close>

record env =
  remote :: "exchange list \<Rightarrow> request \<Rightarrow> reply"
  marshal_error :: "operation list \<Rightarrow> string option"
  new_request_error :: "string \<Rightarrow> string option"

section \<open>Errors, log and state\<close>

text \<open>One constructor for each \<open>fmt.Errorf\<close> of \<open>main.go\<close>, with its arguments.\<close>

datatype error =
    MissingConfiguration
  | MarshalFailed string
  | CreateRequestFailed string
  | SendRequestFailed string
  | ParseResponseFailed string
  | CreateUserStoryFailed string string
  | CreateTaskFailed string

fun error_text :: "error \<Rightarrow> string" where
  "error_text MissingConfiguration =
     ''missing Azure DevOps configuration: organization, project, or PAT''"
| "error_text (MarshalFailed e) = ''failed to marshal payload: '' @ e"
| "error_text (CreateRequestFailed e) = ''failed to create request: '' @ e"
| "error_text (SendRequestFailed e) = ''failed to send request: '' @ e"
| "error_text (ParseResponseFailed e) = ''failed to parse response: '' @ e"
| "error_text (CreateUserStoryFailed s m) =
     ''failed to create user story, status: '' @ s @ '' with message: '' @ m"
| "error_text (CreateTaskFailed s) = ''failed to create task, status: '' @ s"

text \<open>
  The chain a caller walks with \<open>errors.Unwrap\<close>: only the errors built with
  \<open>%w\<close> wrap another one.
\<close>

fun wrapped :: "error \<Rightarrow> string option" where
  "wrapped (MarshalFailed e) = Some e"
| "wrapped (CreateRequestFailed e) = Some e"
| "wrapped (SendRequestFailed e) = Some e"
| "wrapped (ParseResponseFailed e) = Some e"
| "wrapped _ = None"

datatype level = DebugLevel | InfoLevel | ErrorLevel

datatype field = FString string string | FError error

datatype log_entry = LogEntry level string "field list"

text \<open>
  A failed type assertion \<open>x.(T)\<close> panics; nothing in \<open>main.go\<close> recovers, so the
  process ends there.
\<close>

datatype outcome = Returned "error option" | Panicked string

record state =
  exchanges :: "exchange list"
  logs :: "log_entry list"

definition log :: "level \<Rightarrow> string \<Rightarrow> field list \<Rightarrow> state \<Rightarrow> state" where
  "log l msg fs st = st\<lparr>logs := logs st @ [LogEntry l msg fs]\<rparr>"

definition send :: "env \<Rightarrow> request \<Rightarrow> state \<Rightarrow> reply \<times> state" where
  "send e req st =
     (let r = remote e (exchanges st) req
      in (r, st\<lparr>exchanges := exchanges st @ [(req, r)]\<rparr>))"

section \<open>Formatting\<close>

text \<open>The verb \<open>%d\<close> of \<open>fmt.Sprintf\<close> on an int.\<close>

fun digits :: "nat \<Rightarrow> string" where
  "digits n =
     (if n < 10 then [''0123456789'' ! n]
      else digits (n div 10) @ [''0123456789'' ! (n mod 10)])"

declare digits.simps [simp del]

definition sprintf_d :: "int \<Rightarrow> string" where
  "sprintf_d i = (if i < 0 then CHR ''-'' # digits (nat (- i)) else digits (nat i))"

text \<open>The conversion \<open>int(f)\<close> of a \<open>float64\<close>: the fraction is dropped.\<close>

definition go_int :: "rat \<Rightarrow> int" where
  "go_int r = (if r < 0 then - \<lfloor>- r\<rfloor> else \<lfloor>r\<rfloor>)"

section \<open>createUserStory and createTask (src/main.go)\<close>

definition story_url :: "config \<Rightarrow> string" where
  "story_url cfg =
     ''https://dev.azure.com/'' @ organization cfg @ ''/'' @ project cfg
       @ ''/_apis/wit/workitems/$User%20Story?api-version=7.0''"

definition task_url :: "config \<Rightarrow> string" where
  "task_url cfg =
     ''https://dev.azure.com/'' @ organization cfg @ ''/'' @ project cfg
       @ ''/_apis/wit/workitems/$Task?api-version=7.0''"

definition parent_link :: "string \<Rightarrow> int \<Rightarrow> string" where
  "parent_link org parentID =
     ''https://dev.azure.com/'' @ org @ ''/_apis/wit/workItems/'' @ sprintf_d parentID"

text \<open>The payload literal of \<open>createUserStory\<close> (lines 84 to 125).\<close>

definition story_payload :: "UserStory \<Rightarrow> operation list" where
  "story_payload userStory =
     [Operation ''add'' ''/fields/System.Title'' (VString (Name userStory)),
      Operation ''add'' ''/fields/System.Description'' (VString (Description userStory)),
      Operation ''add'' ''/fields/System.AssignedTo'' (VString (Owner userStory)),
      Operation ''add'' ''/fields/Microsoft.VSTS.Common.Priority'' (VInt (Priority userStory)),
      Operation ''add'' ''/fields/System.State'' (VString (State userStory)),
      Operation ''add'' ''/fields/System.Tags'' (VString ''system_automated''),
      Operation ''add'' ''/fields/System.AreaPath'' (VString (Area userStory))]"

text \<open>The payload literal of \<open>createTask\<close> (lines 195 to 242).\<close>

definition task_payload :: "config \<Rightarrow> int \<Rightarrow> Task \<Rightarrow> UserStory \<Rightarrow> operation list" where
  "task_payload cfg parentID task userStory =
     [Operation ''add'' ''/fields/System.Title'' (VString (Task.Name task)),
      Operation ''add'' ''/fields/System.Description'' (VString (Task.Description task)),
      Operation ''add'' ''/fields/System.AssignedTo'' (VString (Task.Owner task)),
      Operation ''add'' ''/fields/Microsoft.VSTS.Common.Priority'' (VInt (Task.Priority task)),
      Operation ''add'' ''/fields/System.State'' (VString (Task.State task)),
      Operation ''add'' ''/relations/-''
        (VRelation ''System.LinkTypes.Hierarchy-Reverse''
           (parent_link (organization cfg) parentID)
           ''Linking task to user story''),
      Operation ''add'' ''/fields/System.AreaPath'' (VString (Area userStory))]"

text \<open>
  The request both functions build: a POST with the patch content type and basic
  authentication, empty user name, the PAT as password.
\<close>

definition post :: "config \<Rightarrow> string \<Rightarrow> operation list \<Rightarrow> request" where
  "post cfg u p =
     \<lparr>http_method = ''POST'', url = u, content_type = ''application/json-patch+json'',
      auth_user = [], auth_password = pat cfg, payload = p\<rparr>"

definition story_request :: "config \<Rightarrow> UserStory \<Rightarrow> request" where
  "story_request cfg userStory = post cfg (story_url cfg) (story_payload userStory)"

definition task_request :: "config \<Rightarrow> int \<Rightarrow> Task \<Rightarrow> UserStory \<Rightarrow> request" where
  "task_request cfg parentID task userStory =
     post cfg (task_url cfg) (task_payload cfg parentID task userStory)"

definition success :: "int \<Rightarrow> bool" where
  "success code = (code = 200 \<or> code = 201)"

definition createTask ::
  "config \<Rightarrow> env \<Rightarrow> int \<Rightarrow> Task \<Rightarrow> UserStory \<Rightarrow> state \<Rightarrow> error option \<times> state" where
  "createTask cfg e parentID task userStory st =
     (if organization cfg = [] \<or> project cfg = [] \<or> pat cfg = []
      then (Some MissingConfiguration, st)
      else
        (case marshal_error e (task_payload cfg parentID task userStory) of
           Some m \<Rightarrow> (Some (MarshalFailed m), st)
         | None \<Rightarrow>
        (case new_request_error e (task_url cfg) of
           Some m \<Rightarrow> (Some (CreateRequestFailed m), st)
         | None \<Rightarrow>
        (case send e (task_request cfg parentID task userStory) st of
           (TransportError m, st1) \<Rightarrow> (Some (SendRequestFailed m), st1)
         | (Response code line b, st1) \<Rightarrow>
             if \<not> success code then (Some (CreateTaskFailed line), st1)
             else (None,
                   log InfoLevel ''Task created successfully''
                     [FString ''name'' (Task.Name task)] st1)))))"

text \<open>The loop over \<open>userStory.Tasks\<close> (lines 171 to 175).\<close>

fun create_tasks ::
  "config \<Rightarrow> env \<Rightarrow> int \<Rightarrow> UserStory \<Rightarrow> Task list \<Rightarrow> state \<Rightarrow> state" where
  "create_tasks cfg e parentID userStory [] st = st"
| "create_tasks cfg e parentID userStory (task # tasks) st =
     (case createTask cfg e parentID task userStory st of
        (None, st1) \<Rightarrow> create_tasks cfg e parentID userStory tasks st1
      | (Some err, st1) \<Rightarrow>
          create_tasks cfg e parentID userStory tasks
            (log ErrorLevel ''Failed to create task''
               [FString ''task_name'' (Task.Name task), FError err] st1))"

text \<open>
  The message of the run-time panic of a failed type assertion \<open>m[key].(T)\<close>, from
  the dynamic type of the value found under the key (a missing key and a JSON
  \<open>null\<close> both give the nil interface).
\<close>

fun dynamic_type :: "json option \<Rightarrow> string" where
  "dynamic_type None = ''nil''"
| "dynamic_type (Some JNull) = ''nil''"
| "dynamic_type (Some (JBool b)) = ''bool''"
| "dynamic_type (Some (JNumber f)) = ''float64''"
| "dynamic_type (Some (JString s)) = ''string''"
| "dynamic_type (Some (JArray xs)) = ''[]interface {}''"
| "dynamic_type (Some (JObject m)) = ''map[string]interface {}''"

definition assertion_panic :: "json option \<Rightarrow> string \<Rightarrow> string" where
  "assertion_panic v T =
     ''interface conversion: interface {} is '' @ dynamic_type v @ '', not '' @ T"

definition createUserStory ::
  "config \<Rightarrow> env \<Rightarrow> UserStory \<Rightarrow> state \<Rightarrow> outcome \<times> state" where
  "createUserStory cfg e userStory st =
     (if organization cfg = [] \<or> project cfg = [] \<or> pat cfg = []
      then (Returned (Some MissingConfiguration), st)
      else
        let st_url = log DebugLevel ''Azure DevOps API URL'' [FString ''url'' (story_url cfg)] st
        in
        (case marshal_error e (story_payload userStory) of
           Some m \<Rightarrow> (Returned (Some (MarshalFailed m)), st_url)
         | None \<Rightarrow>
        (case new_request_error e (story_url cfg) of
           Some m \<Rightarrow> (Returned (Some (CreateRequestFailed m)), st_url)
         | None \<Rightarrow>
        (case send e (story_request cfg userStory) st_url of
           (TransportError m, st1) \<Rightarrow> (Returned (Some (SendRequestFailed m)), st1)
         | (Response code line b, st1) \<Rightarrow>
             if \<not> success code then
               (case b of
                  Undecodable m \<Rightarrow> (Returned (Some (ParseResponseFailed m)), st1)
                | Decoded errResponseBody \<Rightarrow>
                    (case map_of errResponseBody ''message'' of
                       Some (JString msg) \<Rightarrow>
                         (Returned (Some (CreateUserStoryFailed line msg)), st1)
                     | v \<Rightarrow> (Panicked (assertion_panic v ''string''), st1)))
             else
               let st2 = log InfoLevel ''User story created successfully''
                           [FString ''name'' (Name userStory)] st1
               in
               (case b of
                  Undecodable m \<Rightarrow> (Returned (Some (ParseResponseFailed m)), st2)
                | Decoded responseBody \<Rightarrow>
                    (case map_of responseBody ''id'' of
                       Some (JNumber f) \<Rightarrow>
                         (Returned None,
                          create_tasks cfg e (go_int f) userStory (Tasks userStory) st2)
                     | v \<Rightarrow> (Panicked (assertion_panic v ''float64''), st2)))))))"

text \<open>
  The loop of \<open>main\<close> over the decoded stories (lines 58 to 67). A panic of
  \<open>createUserStory\<close> ends the process: the remaining stories are not visited and the
  closing line is not logged.
\<close>

fun create_stories :: "config \<Rightarrow> env \<Rightarrow> UserStory list \<Rightarrow> state \<Rightarrow> string option \<times> state" where
  "create_stories cfg e [] st = (None, st)"
| "create_stories cfg e (userStory # rest) st =
     (case createUserStory cfg e userStory st of
        (Panicked p, st1) \<Rightarrow> (Some p, st1)
      | (Returned None, st1) \<Rightarrow> create_stories cfg e rest st1
      | (Returned (Some err), st1) \<Rightarrow>
          create_stories cfg e rest
            (log ErrorLevel ''Failed to create user story''
               [FString ''name'' (Name userStory), FError err] st1))"

definition main_loop :: "config \<Rightarrow> env \<Rightarrow> UserStory list \<Rightarrow> state \<Rightarrow> string option \<times> state" where
  "main_loop cfg e userStories st =
     (case create_stories cfg e userStories st of
        (Some p, st1) \<Rightarrow> (Some p, st1)
      | (None, st1) \<Rightarrow>
          (None,
           log InfoLevel
             (''Finish Job. Created: '' @ sprintf_d (int (length userStories))
                @ '' US and '' @ sprintf_d 0 @ '' Tasks'') [] st1))"

section \<open>Observing a run\<close>

text \<open>The exchanges a run has added to the state it started from.\<close>

definition issued :: "state \<Rightarrow> state \<Rightarrow> exchange list" where
  "issued st st' = drop (length (exchanges st)) (exchanges st')"

text \<open>
  The URL of every relation a payload establishes, the values a payload carries at a
  path, and the identifier a creation call hands back: the \<open>id\<close> of a decoded 200 or
  201 response, converted as line 168 does.
\<close>

definition relation_urls :: "operation list \<Rightarrow> string list" where
  "relation_urls ops =
     concat (map (\<lambda>x. case val x of VRelation r u c \<Rightarrow> [u] | _ \<Rightarrow> []) ops)"

definition values_at :: "string \<Rightarrow> operation list \<Rightarrow> pvalue list" where
  "values_at p ops = map val (filter (\<lambda>x. path x = p) ops)"

definition returned_id :: "reply \<Rightarrow> int option" where
  "returned_id r =
     (case r of
        Response code line (Decoded m) \<Rightarrow>
          (if success code
           then (case map_of m ''id'' of Some (JNumber f) \<Rightarrow> Some (go_int f) | _ \<Rightarrow> None)
           else None)
      | _ \<Rightarrow> None)"

text \<open>
  A request is a child of a story under an identifier when it is the request
  \<open>createTask\<close> builds for one of the story's tasks with that identifier, and its only
  relation points at that identifier. A segment of a run belongs to a story when it is
  empty, or starts with the story's own request and every later request is a child of
  the story under the identifier the reply to that first request returned.
\<close>

definition child_of :: "config \<Rightarrow> UserStory \<Rightarrow> int \<Rightarrow> request \<Rightarrow> bool" where
  "child_of cfg userStory parentID q =
     (q \<in> set (map (\<lambda>t. task_request cfg parentID t userStory) (Tasks userStory))
      \<and> relation_urls (payload q) = [parent_link (organization cfg) parentID])"

definition story_segment :: "config \<Rightarrow> UserStory \<Rightarrow> exchange list \<Rightarrow> bool" where
  "story_segment cfg userStory seg =
     (case seg of
        [] \<Rightarrow> True
      | (q, r) # kids \<Rightarrow>
          q = story_request cfg userStory \<and>
          (kids = [] \<or>
           (case returned_id r of
              None \<Rightarrow> False
            | Some parentID \<Rightarrow> list_all (\<lambda>x. child_of cfg userStory parentID (fst x)) kids)))"

text \<open>
  The calls of \<open>createTask\<close> that the log shows: the loop of \<open>createUserStory\<close> logs
  a failed call under \<open>task_name\<close>, \<open>createTask\<close> itself logs a successful one under
  \<open>name\<close>.
\<close>

fun attempt :: "log_entry \<Rightarrow> string list" where
  "attempt (LogEntry InfoLevel msg [FString k n]) =
     (if msg = ''Task created successfully'' \<and> k = ''name'' then [n] else [])"
| "attempt (LogEntry ErrorLevel msg [FString k n, FError err]) =
     (if msg = ''Failed to create task'' \<and> k = ''task_name'' then [n] else [])"
| "attempt _ = []"

definition task_attempts :: "log_entry list \<Rightarrow> string list" where
  "task_attempts ls = concat (map attempt ls)"

text \<open>Reading the five copied fields back out of a payload.\<close>

definition read_back :: "operation list \<Rightarrow> (string \<times> string \<times> string \<times> int \<times> string) option" where
  "read_back ops =
     (case (values_at ''/fields/System.Title'' ops,
            values_at ''/fields/System.Description'' ops,
            values_at ''/fields/System.AssignedTo'' ops,
            values_at ''/fields/Microsoft.VSTS.Common.Priority'' ops,
            values_at ''/fields/System.State'' ops) of
        ([VString n], [VString d], [VString w], [VInt p], [VString s]) \<Rightarrow> Some (n, d, w, p, s)
      | _ \<Rightarrow> None)"

text \<open>A record with the fields \<open>Type\<close> and \<open>Estimate\<close> blanked.\<close>

definition erase_task :: "Task \<Rightarrow> Task" where
  "erase_task task = task\<lparr>Task.Type := [], Task.Estimate := 0\<rparr>"

definition erase_story :: "UserStory \<Rightarrow> UserStory" where
  "erase_story userStory = userStory\<lparr>Type := [], Tasks := map erase_task (Tasks userStory)\<rparr>"

section \<open>A concrete run\<close>

text \<open>
  A configuration, records and remote services to evaluate the functions on. The first
  remote answers by the title of the item it is asked to create: 100 for \<open>US1\<close>, 300
  for \<open>US2\<close>, a 500 for \<open>T2\<close>. The second gives every request the same reply.
\<close>

definition ex_cfg :: config where
  "ex_cfg = \<lparr>organization = ''org'', project = ''proj'', pat = ''secret''\<rparr>"

definition ex_task :: "string \<Rightarrow> Task" where
  "ex_task n =
     \<lparr>Task.Name = n, Task.Type = ''Task'', Task.Description = ''do '' @ n,
      Task.Owner = ''ann'', Task.State = ''New'', Task.Priority = 2, Task.Estimate = 3\<rparr>"

definition ex_story :: "string \<Rightarrow> string \<Rightarrow> Task list \<Rightarrow> UserStory" where
  "ex_story n a ts =
     \<lparr>Name = n, Type = ''User Story'', Description = ''about '' @ n, Owner = ''bob'',
      State = ''New'', Priority = 1, Area = a, Path = ''p'', Tasks = ts,
      Iteraction = None, Team = ''team''\<rparr>"

definition st0 :: state where
  "st0 = \<lparr>exchanges = [], logs = []\<rparr>"

definition title :: "request \<Rightarrow> string" where
  "title req = (case payload req of Operation _ _ (VString n) # _ \<Rightarrow> n | _ \<Rightarrow> [])"

definition ex_remote :: "exchange list \<Rightarrow> request \<Rightarrow> reply" where
  "ex_remote hist req =
     (if title req = ''US1'' then Response 200 ''200 OK'' (Decoded [(''id'', JNumber 100)])
      else if title req = ''US2'' then Response 201 ''201 Created'' (Decoded [(''id'', JNumber 300)])
      else if title req = ''T2'' then Response 500 ''500 Internal Server Error'' (Undecodable ''EOF'')
      else Response 200 ''200 OK'' (Decoded [(''id'', JNumber (of_nat (200 + length hist)))]))"

definition ex_env :: env where
  "ex_env = \<lparr>remote = ex_remote, marshal_error = (\<lambda>_. None), new_request_error = (\<lambda>_. None)\<rparr>"

definition const_env :: "reply \<Rightarrow> env" where
  "const_env r =
     \<lparr>remote = (\<lambda>hist req. r), marshal_error = (\<lambda>p. None), new_request_error = (\<lambda>u. None)\<rparr>"

definition us1 :: UserStory where
  "us1 = ex_story ''US1'' ''TeamA'' [ex_task ''T1'', ex_task ''T2'', ex_task ''T3'']"

definition us2 :: UserStory where
  "us2 = ex_story ''US2'' ''TeamB'' [ex_task ''T4'']"

definition us1_retyped :: UserStory where
  "us1_retyped =
     us1\<lparr>Type := ''Bug'',
         Tasks := map (\<lambda>t. t\<lparr>Task.Type := ''Issue'', Task.Estimate := 8\<rparr>) (Tasks us1)\<rparr>"

section \<open>The requests a run issues\<close>

lemma exchanges_log [simp]: "exchanges (log l m fs st) = exchanges st"
  by (simp add: log_def)

lemma logs_log [simp]: "logs (log l m fs st) = logs st @ [LogEntry l m fs]"
  by (simp add: log_def)

lemma relation_urls_task_payload [simp]:
  "relation_urls (task_payload cfg parentID task userStory) = [parent_link (organization cfg) parentID]"
  by (simp add: relation_urls_def task_payload_def)

lemma createTask_exchanges:
  "exchanges (snd (createTask cfg e parentID task userStory st)) = exchanges st
   \<or> (\<exists>r. exchanges (snd (createTask cfg e parentID task userStory st))
          = exchanges st @ [(task_request cfg parentID task userStory, r)])"
  by (simp add: createTask_def send_def Let_def split: option.splits reply.splits)

lemma create_tasks_exchanges:
  "\<exists>kids. exchanges (create_tasks cfg e parentID userStory tasks st) = exchanges st @ kids
     \<and> (\<forall>x\<in>set kids. \<exists>t\<in>set tasks. fst x = task_request cfg parentID t userStory)"
proof (induction tasks arbitrary: st)
  case Nil
  show ?case by simp
next
  case (Cons task tasks)
  obtain r st1 where ct: "createTask cfg e parentID task userStory st = (r, st1)"
    by (cases "createTask cfg e parentID task userStory st")
  define st2 where "st2 = (case r of None \<Rightarrow> st1
      | Some err \<Rightarrow> log ErrorLevel ''Failed to create task''
               [FString ''task_name'' (Task.Name task), FError err] st1)"
  have step: "create_tasks cfg e parentID userStory (task # tasks) st
              = create_tasks cfg e parentID userStory tasks st2"
    using ct by (simp add: st2_def split: option.splits)
  have ex2: "exchanges st2 = exchanges st1"
    by (simp add: st2_def split: option.splits)
  from createTask_exchanges [of cfg e parentID task userStory st] ct
  obtain one where one: "exchanges st1 = exchanges st @ one"
      "\<forall>x\<in>set one. fst x = task_request cfg parentID task userStory"
    by auto
  from Cons.IH [of st2] obtain kids where
    kids: "exchanges (create_tasks cfg e parentID userStory tasks st2) = exchanges st2 @ kids"
      "\<forall>x\<in>set kids. \<exists>t\<in>set tasks. fst x = task_request cfg parentID t userStory"
    by blast
  have "exchanges (create_tasks cfg e parentID userStory (task # tasks) st)
          = exchanges st @ (one @ kids)"
    using step kids(1) ex2 one(1) by simp
  moreover have "\<forall>x\<in>set (one @ kids). \<exists>t\<in>set (task # tasks).
                   fst x = task_request cfg parentID t userStory"
    using one(2) kids(2) by auto
  ultimately show ?case by blast
qed

lemma createUserStory_exchanges:
  "\<exists>seg. exchanges (snd (createUserStory cfg e userStory st)) = exchanges st @ seg
     \<and> story_segment cfg userStory seg"
proof (cases "\<exists>code line m f. organization cfg \<noteq> [] \<and> project cfg \<noteq> [] \<and> pat cfg \<noteq> []
     \<and> marshal_error e (story_payload userStory) = None
     \<and> new_request_error e (story_url cfg) = None
     \<and> remote e (exchanges st) (story_request cfg userStory) = Response code line (Decoded m)
     \<and> success code \<and> map_of m ''id'' = Some (JNumber f)")
  case True
  then obtain code line m f where ok:
    "organization cfg \<noteq> []" "project cfg \<noteq> []" "pat cfg \<noteq> []"
    "marshal_error e (story_payload userStory) = None"
    "new_request_error e (story_url cfg) = None"
    "remote e (exchanges st) (story_request cfg userStory) = Response code line (Decoded m)"
    "success code" "map_of m ''id'' = Some (JNumber f)"
    by blast
  define r where "r = Response code line (Decoded m)"
  define st2 where "st2 = log InfoLevel ''User story created successfully''
                           [FString ''name'' (Name userStory)]
      ((log DebugLevel ''Azure DevOps API URL'' [FString ''url'' (story_url cfg)] st)
         \<lparr>exchanges := exchanges st @ [(story_request cfg userStory, r)]\<rparr>)"
  have res: "snd (createUserStory cfg e userStory st)
             = create_tasks cfg e (go_int f) userStory (Tasks userStory) st2"
    using ok by (simp add: createUserStory_def send_def Let_def st2_def r_def)
  have ex2: "exchanges st2 = exchanges st @ [(story_request cfg userStory, r)]"
    by (simp add: st2_def)
  from create_tasks_exchanges [of cfg e "go_int f" userStory "Tasks userStory" st2]
  obtain kids where kids:
    "exchanges (create_tasks cfg e (go_int f) userStory (Tasks userStory) st2) = exchanges st2 @ kids"
    "\<forall>x\<in>set kids. \<exists>t\<in>set (Tasks userStory). fst x = task_request cfg (go_int f) t userStory"
    by blast
  have rid: "returned_id r = Some (go_int f)"
    using ok by (simp add: returned_id_def r_def)
  have "list_all (\<lambda>x. child_of cfg userStory (go_int f) (fst x)) kids"
    using kids(2) by (auto simp: list_all_iff child_of_def task_request_def post_def)
  then have "story_segment cfg userStory ((story_request cfg userStory, r) # kids)"
    using rid by (simp add: story_segment_def)
  moreover have "exchanges (snd (createUserStory cfg e userStory st))
                 = exchanges st @ ((story_request cfg userStory, r) # kids)"
    using res kids(1) ex2 by simp
  ultimately show ?thesis by blast
next
  case False
  then have "exchanges (snd (createUserStory cfg e userStory st)) = exchanges st
     \<or> (\<exists>r. exchanges (snd (createUserStory cfg e userStory st))
            = exchanges st @ [(story_request cfg userStory, r)])"
    by (auto simp: createUserStory_def send_def Let_def
             split: option.splits reply.splits body.splits json.splits)
  then show ?thesis
    by (auto simp: story_segment_def)
qed

lemma issued_append [simp]: "exchanges st' = exchanges st @ xs \<Longrightarrow> issued st st' = xs"
  by (simp add: issued_def)

lemma create_stories_exchanges:
  "\<exists>segs. exchanges (snd (create_stories cfg e userStories st)) = exchanges st @ concat segs
     \<and> list_all2 (story_segment cfg) (take (length segs) userStories) segs"
proof (induction userStories arbitrary: st)
  case Nil
  have "exchanges (snd (create_stories cfg e [] st)) = exchanges st @ concat []
        \<and> list_all2 (story_segment cfg) (take (length ([] :: exchange list list)) []) []"
    by simp
  then show ?case by blast
next
  case (Cons userStory rest)
  obtain out st1 where cu: "createUserStory cfg e userStory st = (out, st1)"
    by (cases "createUserStory cfg e userStory st")
  from createUserStory_exchanges [of cfg e userStory st] cu
  obtain seg where seg: "exchanges st1 = exchanges st @ seg" "story_segment cfg userStory seg"
    by auto
  show ?case
  proof (cases out)
    case (Panicked p)
    then have "exchanges (snd (create_stories cfg e (userStory # rest) st))
                 = exchanges st @ concat [seg]"
      using cu seg(1) by simp
    moreover have "list_all2 (story_segment cfg) (take (length [seg]) (userStory # rest)) [seg]"
      using seg(2) by simp
    ultimately show ?thesis by blast
  next
    case (Returned r)
    define st2 where "st2 = (case r of None \<Rightarrow> st1
      | Some err \<Rightarrow> log ErrorLevel ''Failed to create user story''
               [FString ''name'' (Name userStory), FError err] st1)"
    have step: "create_stories cfg e (userStory # rest) st = create_stories cfg e rest st2"
      using cu Returned by (simp add: st2_def split: option.splits)
    have ex2: "exchanges st2 = exchanges st1"
      by (simp add: st2_def split: option.splits)
    from Cons.IH [of st2] obtain segs where segs:
      "exchanges (snd (create_stories cfg e rest st2)) = exchanges st2 @ concat segs"
      "list_all2 (story_segment cfg) (take (length segs) rest) segs"
      by blast
    have "exchanges (snd (create_stories cfg e (userStory # rest) st))
            = exchanges st @ concat (seg # segs)"
      using step segs(1) ex2 seg(1) by simp
    moreover have "list_all2 (story_segment cfg)
                     (take (length (seg # segs)) (userStory # rest)) (seg # segs)"
      using seg(2) segs(2) by simp
    ultimately show ?thesis by blast
  qed
qed

lemma exchanges_main_loop:
  "exchanges (snd (main_loop cfg e userStories st))
     = exchanges (snd (create_stories cfg e userStories st))"
  by (simp add: main_loop_def split: prod.splits option.splits)

lemma story_segment_urls:
  assumes "story_segment cfg userStory seg" and "x \<in> set seg"
  shows "url (fst x) = story_url cfg \<or> url (fst x) = task_url cfg"
proof -
  obtain q r kids where sg: "seg = (q, r) # kids"
    using assms(2) by (cases seg) auto
  show ?thesis
  proof (cases "x = (q, r)")
    case True
    then show ?thesis
      using assms(1) sg by (simp add: story_segment_def story_request_def post_def)
  next
    case False
    then have "x \<in> set kids" using assms(2) sg by simp
    then obtain parentID where "child_of cfg userStory parentID (fst x)"
      using assms(1) sg
      by (auto simp: story_segment_def list_all_iff split: option.splits)
    then obtain t where "fst x = task_request cfg parentID t userStory"
      by (auto simp: child_of_def)
    then show ?thesis by (simp add: task_request_def post_def)
  qed
qed

lemma issued_urls:
  assumes "x \<in> set (issued st (snd (main_loop cfg e userStories st)))"
  shows "url (fst x) = story_url cfg \<or> url (fst x) = task_url cfg"
proof -
  from create_stories_exchanges [of cfg e userStories st] obtain segs where segs:
    "exchanges (snd (create_stories cfg e userStories st)) = exchanges st @ concat segs"
    "list_all2 (story_segment cfg) (take (length segs) userStories) segs"
    by blast
  have "issued st (snd (main_loop cfg e userStories st)) = concat segs"
    using segs(1) by (simp add: exchanges_main_loop)
  then obtain seg where seg: "seg \<in> set segs" "x \<in> set seg"
    using assms by auto
  then obtain i where i: "i < length segs" "segs ! i = seg"
    by (auto simp: in_set_conv_nth)
  then have "story_segment cfg (take (length segs) userStories ! i) seg"
    using segs(2) by (auto simp: list_all2_conv_all_nth)
  then show ?thesis
    using seg(2) by (rule story_segment_urls)
qed

section \<open>Decimal rendering is injective\<close>

lemma digits_not_Nil: "digits n \<noteq> []"
  by (subst digits.simps) simp

lemma digit_char_inject:
  "i < 10 \<Longrightarrow> j < 10 \<Longrightarrow> ''0123456789'' ! i = ''0123456789'' ! j \<Longrightarrow> i = j"
proof -
  assume a: "i < 10" "j < 10" "''0123456789'' ! i = ''0123456789'' ! j"
  have d: "distinct ''0123456789''" by simp
  have l: "length ''0123456789'' = 10" by simp
  show "i = j"
    using a d l nth_eq_iff_index_eq [of "''0123456789''" i j] by metis
qed

lemma digit_char_not_minus: "i < 10 \<Longrightarrow> ''0123456789'' ! i \<noteq> CHR ''-''"
proof -
  assume "i < 10"
  then have "''0123456789'' ! i \<in> set ''0123456789''"
    by (intro nth_mem) simp
  then show ?thesis by auto
qed

lemma digits_no_minus: "CHR ''-'' \<notin> set (digits n)"
proof (induction n rule: digits.induct)
  case (1 n)
  show ?case
  proof (cases "n < 10")
    case True
    then show ?thesis
      using digit_char_not_minus [of n] by (subst digits.simps) auto
  next
    case False
    then show ?thesis
      using 1 digit_char_not_minus [of "n mod 10"] by (subst digits.simps) auto
  qed
qed

lemma digits_inject: "digits m = digits n \<Longrightarrow> m = n"
proof (induction m arbitrary: n rule: digits.induct)
  case (1 m)
  show ?case
  proof (cases "m < 10")
    case m: True
    show ?thesis
    proof (cases "n < 10")
      case True
      then show ?thesis
        using m "1.prems" digit_char_inject [of m n]
        by (simp add: digits.simps [of m] digits.simps [of n])
    next
      case False
      then show ?thesis
        using m "1.prems" digits_not_Nil [of "n div 10"]
        by (simp add: digits.simps [of m] digits.simps [of n])
    qed
  next
    case m: False
    show ?thesis
    proof (cases "n < 10")
      case True
      then show ?thesis
        using m "1.prems" digits_not_Nil [of "m div 10"]
        by (simp add: digits.simps [of m] digits.simps [of n])
    next
      case False
      then have eq: "digits (m div 10) = digits (n div 10)"
        "''0123456789'' ! (m mod 10) = ''0123456789'' ! (n mod 10)"
        using m "1.prems" by (simp_all add: digits.simps [of m] digits.simps [of n])
      have "m div 10 = n div 10"
        using "1.IH" [OF m eq(1)] .
      moreover have "m mod 10 = n mod 10"
        using eq(2) digit_char_inject [of "m mod 10" "n mod 10"] by simp
      ultimately show ?thesis
        by (metis div_mult_mod_eq)
    qed
  qed
qed

lemma sprintf_d_inject: "sprintf_d a = sprintf_d b \<Longrightarrow> a = b"
proof -
  assume eq: "sprintf_d a = sprintf_d b"
  have neg: "CHR ''-'' # digits x \<noteq> digits y" for x y
    using digits_no_minus [of y] by (metis list.set_intros(1))
  show "a = b"
  proof (cases "a < 0")
    case a: True
    show ?thesis
    proof (cases "b < 0")
      case True
      then have "nat (- a) = nat (- b)"
        using a eq digits_inject by (simp add: sprintf_d_def)
      then show ?thesis using a True by simp
    next
      case False
      then show ?thesis using a eq neg by (simp add: sprintf_d_def)
    qed
  next
    case a: False
    show ?thesis
    proof (cases "b < 0")
      case True
      then show ?thesis using a eq neg [of "nat (- b)" "nat a"] by (simp add: sprintf_d_def)
    next
      case False
      then have "nat a = nat b"
        using a eq digits_inject by (simp add: sprintf_d_def)
      then show ?thesis using a False by simp
    qed
  qed
qed

lemma parent_link_inject: "parent_link org a = parent_link org b \<Longrightarrow> a = b"
  by (simp add: parent_link_def sprintf_d_inject)

lemma story_url_not_task_url: "story_url cfg \<noteq> task_url cfg"
  by (simp add: story_url_def task_url_def)

section \<open>The loop over the tasks\<close>

lemma createTask_attempt:
  assumes "createTask cfg e parentID task userStory st = (r, st1)"
  shows "task_attempts (logs (case r of None \<Rightarrow> st1
            | Some err \<Rightarrow> log ErrorLevel ''Failed to create task''
                 [FString ''task_name'' (Task.Name task), FError err] st1))
         = task_attempts (logs st) @ [Task.Name task]"
  using assms
  by (auto simp: createTask_def send_def Let_def task_attempts_def
           split: if_splits option.splits reply.splits)

lemma create_tasks_attempts:
  "task_attempts (logs (create_tasks cfg e parentID userStory tasks st))
     = task_attempts (logs st) @ map Task.Name tasks"
proof (induction tasks arbitrary: st)
  case Nil
  show ?case by simp
next
  case (Cons task tasks)
  obtain r st1 where ct: "createTask cfg e parentID task userStory st = (r, st1)"
    by (cases "createTask cfg e parentID task userStory st")
  define st2 where "st2 = (case r of None \<Rightarrow> st1
      | Some err \<Rightarrow> log ErrorLevel ''Failed to create task''
               [FString ''task_name'' (Task.Name task), FError err] st1)"
  have step: "create_tasks cfg e parentID userStory (task # tasks) st
              = create_tasks cfg e parentID userStory tasks st2"
    using ct by (simp add: st2_def split: option.splits)
  have "task_attempts (logs st2) = task_attempts (logs st) @ [Task.Name task]"
    unfolding st2_def using ct by (rule createTask_attempt)
  then show ?case
    using step Cons.IH [of st2] by simp
qed

lemma createTask_sends:
  assumes "organization cfg \<noteq> []" "project cfg \<noteq> []" "pat cfg \<noteq> []"
    and "marshal_error e (task_payload cfg parentID task userStory) = None"
    and "new_request_error e (task_url cfg) = None"
  shows "exchanges (snd (createTask cfg e parentID task userStory st))
         = exchanges st @ [(task_request cfg parentID task userStory,
                            remote e (exchanges st) (task_request cfg parentID task userStory))]"
  using assms
  by (simp add: createTask_def send_def Let_def split: reply.splits)

lemma create_tasks_sends:
  assumes "organization cfg \<noteq> []" "project cfg \<noteq> []" "pat cfg \<noteq> []"
    and "\<forall>t\<in>set tasks. marshal_error e (task_payload cfg parentID t userStory) = None"
    and "new_request_error e (task_url cfg) = None"
  shows "\<exists>kids. exchanges (create_tasks cfg e parentID userStory tasks st) = exchanges st @ kids
           \<and> map fst kids = map (\<lambda>t. task_request cfg parentID t userStory) tasks"
  using assms(4)
proof (induction tasks arbitrary: st)
  case Nil
  show ?case by simp
next
  case (Cons task tasks)
  obtain r st1 where ct: "createTask cfg e parentID task userStory st = (r, st1)"
    by (cases "createTask cfg e parentID task userStory st")
  define st2 where "st2 = (case r of None \<Rightarrow> st1
      | Some err \<Rightarrow> log ErrorLevel ''Failed to create task''
               [FString ''task_name'' (Task.Name task), FError err] st1)"
  have step: "create_tasks cfg e parentID userStory (task # tasks) st
              = create_tasks cfg e parentID userStory tasks st2"
    using ct by (simp add: st2_def split: option.splits)
  have "exchanges st1 = exchanges st @ [(task_request cfg parentID task userStory,
                            remote e (exchanges st) (task_request cfg parentID task userStory))]"
    using createTask_sends [OF assms(1-3) _ assms(5), of parentID task userStory st] ct Cons.prems
    by simp
  then have ex2: "exchanges st2 = exchanges st @ [(task_request cfg parentID task userStory,
                            remote e (exchanges st) (task_request cfg parentID task userStory))]"
    by (simp add: st2_def split: option.splits)
  from Cons.IH [of st2] Cons.prems obtain kids where kids:
    "exchanges (create_tasks cfg e parentID userStory tasks st2) = exchanges st2 @ kids"
    "map fst kids = map (\<lambda>t. task_request cfg parentID t userStory) tasks"
    by auto
  have "exchanges (create_tasks cfg e parentID userStory (task # tasks) st)
        = exchanges st @ ((task_request cfg parentID task userStory,
                            remote e (exchanges st) (task_request cfg parentID task userStory)) # kids)"
    using step kids(1) ex2 by simp
  moreover have "map fst ((task_request cfg parentID task userStory,
                            remote e (exchanges st) (task_request cfg parentID task userStory)) # kids)
                 = map (\<lambda>t. task_request cfg parentID t userStory) (task # tasks)"
    using kids(2) by simp
  ultimately show ?case by blast
qed

section \<open>A parent that fails\<close>

lemma failed_parent_outcome:
  assumes "organization cfg = [] \<or> project cfg = [] \<or> pat cfg = []
     \<or> marshal_error e (story_payload userStory) \<noteq> None
     \<or> new_request_error e (story_url cfg) \<noteq> None
     \<or> (\<exists>m. remote e (exchanges st) (story_request cfg userStory) = TransportError m)
     \<or> (\<exists>code line b. remote e (exchanges st) (story_request cfg userStory) = Response code line b
           \<and> (\<not> success code \<or> (\<exists>d. b = Undecodable d)
               \<or> (\<exists>m. b = Decoded m \<and> (\<forall>f. map_of m ''id'' \<noteq> Some (JNumber f)))))"
  shows "fst (createUserStory cfg e userStory st) \<noteq> Returned None"
  using assms
  by (auto simp: createUserStory_def send_def Let_def
           split: option.splits reply.splits body.splits json.splits)

lemma non_nil_outcome_no_child_calls:
  assumes "createUserStory cfg e userStory st = (out, st')" and "out \<noteq> Returned None"
  shows "(map fst (issued st st') = [] \<or> map fst (issued st st') = [story_request cfg userStory])
       \<and> filter (\<lambda>x. url (fst x) = task_url cfg) (issued st st') = []
       \<and> task_attempts (logs st') = task_attempts (logs st)"
proof -
  have "(exchanges st' = exchanges st
         \<or> (\<exists>r. exchanges st' = exchanges st @ [(story_request cfg userStory, r)]))
        \<and> (logs st' = logs st
         \<or> logs st' = logs st @ [LogEntry DebugLevel ''Azure DevOps API URL'' [FString ''url'' (story_url cfg)]]
         \<or> logs st' = logs st @ [LogEntry DebugLevel ''Azure DevOps API URL'' [FString ''url'' (story_url cfg)],
               LogEntry InfoLevel ''User story created successfully'' [FString ''name'' (Name userStory)]])"
    using assms
    by (auto simp: createUserStory_def send_def Let_def log_def
             split: if_splits option.splits reply.splits body.splits json.splits)
  then show ?thesis
    using story_url_not_task_url [of cfg]
    by (auto simp: story_request_def post_def task_attempts_def)
qed

section \<open>Blanking Type and Estimate\<close>

lemma createTask_erase:
  "createTask cfg e parentID (erase_task task) (erase_story userStory) st
   = createTask cfg e parentID task userStory st"
proof -
  have p: "task_payload cfg parentID (erase_task task) (erase_story userStory)
           = task_payload cfg parentID task userStory"
    by (simp add: task_payload_def erase_task_def erase_story_def)
  have n: "Task.Name (erase_task task) = Task.Name task"
    by (simp add: erase_task_def)
  have r: "task_request cfg parentID (erase_task task) (erase_story userStory)
           = task_request cfg parentID task userStory"
    by (simp add: task_request_def p)
  show ?thesis
    unfolding createTask_def p r n by (rule refl)
qed

lemma create_tasks_erase:
  "create_tasks cfg e parentID (erase_story userStory) (map erase_task tasks) st
   = create_tasks cfg e parentID userStory tasks st"
proof (induction tasks arbitrary: st)
  case Nil
  show ?case by simp
next
  case (Cons task tasks)
  have "Task.Name (erase_task task) = Task.Name task"
    by (simp add: erase_task_def)
  then show ?case
    using Cons.IH by (simp add: createTask_erase split: prod.splits option.splits)
qed

lemma createUserStory_erase:
  "createUserStory cfg e (erase_story userStory) st = createUserStory cfg e userStory st"
proof -
  have p: "story_payload (erase_story userStory) = story_payload userStory"
    by (simp add: story_payload_def erase_story_def)
  have t: "Tasks (erase_story userStory) = map erase_task (Tasks userStory)"
    "Name (erase_story userStory) = Name userStory"
    by (simp_all add: erase_story_def)
  have r: "story_request cfg (erase_story userStory) = story_request cfg userStory"
    by (simp add: story_request_def p)
  show ?thesis
    unfolding createUserStory_def p r t create_tasks_erase by (rule refl)
qed

lemma create_stories_erase:
  "create_stories cfg e (map erase_story userStories) st = create_stories cfg e userStories st"
proof (induction userStories arbitrary: st)
  case Nil
  show ?case by simp
next
  case (Cons userStory rest)
  have "Name (erase_story userStory) = Name userStory"
    by (simp add: erase_story_def)
  then show ?case
    using Cons.IH
    by (simp add: createUserStory_erase split: prod.splits outcome.splits option.splits)
qed

lemma main_loop_erase:
  "main_loop cfg e (map erase_story userStories) st = main_loop cfg e userStories st"
  unfolding main_loop_def create_stories_erase length_map by (rule refl)

section \<open>The classification tag\<close>

lemma story_payload_tag:
  "values_at ''/fields/System.Tags'' (story_payload userStory) = [VString ''system_automated'']"
  by (simp add: values_at_def story_payload_def)

lemma task_payload_no_tag:
  "values_at ''/fields/System.Tags'' (task_payload cfg parentID task userStory) = []"
  by (simp add: values_at_def task_payload_def)

section \<open>Evaluating the concrete run\<close>

lemmas run_defs = createUserStory_def createTask_def send_def log_def ex_cfg_def
  ex_env_def ex_remote_def title_def ex_story_def ex_task_def st0_def story_request_def
  task_request_def post_def story_payload_def task_payload_def success_def go_int_def
  story_url_def task_url_def issued_def const_env_def us1_def us2_def Let_def

section \<open>The claims\<close>

text \<open>
  C1. The requests of a batch split into one segment for each story visited, in order.
  Within a segment every request after the story's own is the request of one of that
  story's tasks, built with the identifier that the reply to the story's own request
  returned, and the one relation of its payload is the link built from the organization
  name and that identifier. Two identifiers with the same link are equal, so the link
  never names the identifier of another parent.
\<close>

theorem child_links_own_parent:
  "(\<exists>segs. issued st (snd (main_loop cfg e userStories st)) = concat segs
     \<and> list_all2 (story_segment cfg) (take (length segs) userStories) segs)
   \<and> (\<forall>a b. parent_link (organization cfg) a = parent_link (organization cfg) b \<longrightarrow> a = b)"
proof -
  from create_stories_exchanges [of cfg e userStories st] obtain segs where
    "exchanges (snd (create_stories cfg e userStories st)) = exchanges st @ concat segs"
    "list_all2 (story_segment cfg) (take (length segs) userStories) segs"
    by blast
  then have "issued st (snd (main_loop cfg e userStories st)) = concat segs
     \<and> list_all2 (story_segment cfg) (take (length segs) userStories) segs"
    by (simp add: exchanges_main_loop)
  then show ?thesis
    using parent_link_inject by blast
qed

theorem child_links_own_parent_witness:
  "story_segment ex_cfg us1 (take 4 (issued st0 (snd (main_loop ex_cfg ex_env [us1, us2] st0))))
   \<and> story_segment ex_cfg us2 (drop 4 (issued st0 (snd (main_loop ex_cfg ex_env [us1, us2] st0))))
   \<and> map (\<lambda>x. (returned_id (snd x), relation_urls (payload (fst x))))
       (issued st0 (snd (main_loop ex_cfg ex_env [us1, us2] st0)))
     = [(Some 100, []),
        (Some 201, [''https://dev.azure.com/org/_apis/wit/workItems/100'']),
        (None, [''https://dev.azure.com/org/_apis/wit/workItems/100'']),
        (Some 203, [''https://dev.azure.com/org/_apis/wit/workItems/100'']),
        (Some 300, []),
        (Some 205, [''https://dev.azure.com/org/_apis/wit/workItems/300''])]"
  (is ?run)
proof -
  have run: ?run
    by (simp add: run_defs main_loop_def story_segment_def child_of_def returned_id_def
          relation_urls_def parent_link_def sprintf_d_def digits.simps)
  show ?thesis
    using child_links_own_parent [of st0 ex_cfg ex_env "[us1, us2]"] run by simp
qed

text \<open>
  C2. When the parent's creation fails (a setting is empty, marshalling or building the
  request fails, the transport fails, the status is neither 200 nor 201, the body of
  the response cannot be decoded, or it decodes without a numeric \<open>id\<close>),
  \<open>createUserStory\<close> does not return nil and has sent nothing or the story's own
  request alone: no request goes to the task URL, and the log shows no call of
  \<open>createTask\<close>.
\<close>

theorem failed_parent_no_child_calls:
  assumes "organization cfg = [] \<or> project cfg = [] \<or> pat cfg = []
     \<or> marshal_error e (story_payload userStory) \<noteq> None
     \<or> new_request_error e (story_url cfg) \<noteq> None
     \<or> (\<exists>m. remote e (exchanges st) (story_request cfg userStory) = TransportError m)
     \<or> (\<exists>code line b. remote e (exchanges st) (story_request cfg userStory) = Response code line b
           \<and> (\<not> success code \<or> (\<exists>d. b = Undecodable d)
               \<or> (\<exists>m. b = Decoded m \<and> (\<forall>f. map_of m ''id'' \<noteq> Some (JNumber f)))))"
  shows "fst (createUserStory cfg e userStory st) \<noteq> Returned None
       \<and> (map fst (issued st (snd (createUserStory cfg e userStory st))) = []
          \<or> map fst (issued st (snd (createUserStory cfg e userStory st)))
             = [story_request cfg userStory])
       \<and> filter (\<lambda>x. url (fst x) = task_url cfg)
            (issued st (snd (createUserStory cfg e userStory st))) = []
       \<and> task_attempts (logs (snd (createUserStory cfg e userStory st)))
          = task_attempts (logs st)"
proof -
  have ne: "fst (createUserStory cfg e userStory st) \<noteq> Returned None"
    using assms by (rule failed_parent_outcome)
  have eq: "createUserStory cfg e userStory st
            = (fst (createUserStory cfg e userStory st), snd (createUserStory cfg e userStory st))"
    by simp
  show ?thesis
    using ne non_nil_outcome_no_child_calls [OF eq ne] by simp
qed

theorem failed_parent_no_child_calls_witness:
  "fst (createUserStory ex_cfg (const_env (TransportError ''connection refused'')) us1 st0)
     = Returned (Some (SendRequestFailed ''connection refused''))
   \<and> map fst (issued st0 (snd (createUserStory ex_cfg
          (const_env (TransportError ''connection refused'')) us1 st0)))
     = [story_request ex_cfg us1]
   \<and> fst (createUserStory ex_cfg
          (const_env (Response 401 ''401 Unauthorized''
             (Decoded [(''message'', JString ''Access denied'')]))) us1 st0)
     = Returned (Some (CreateUserStoryFailed ''401 Unauthorized'' ''Access denied''))
   \<and> map fst (issued st0 (snd (createUserStory ex_cfg
          (const_env (Response 401 ''401 Unauthorized''
             (Decoded [(''message'', JString ''Access denied'')]))) us1 st0)))
     = [story_request ex_cfg us1]
   \<and> fst (createUserStory ex_cfg
          (const_env (Response 200 ''200 OK'' (Undecodable ''unexpected EOF''))) us1 st0)
     = Returned (Some (ParseResponseFailed ''unexpected EOF''))
   \<and> filter (\<lambda>x. url (fst x) = task_url ex_cfg)
        (issued st0 (snd (createUserStory ex_cfg
          (const_env (Response 200 ''200 OK'' (Undecodable ''unexpected EOF''))) us1 st0))) = []
   \<and> Tasks us1 = [ex_task ''T1'', ex_task ''T2'', ex_task ''T3'']"
  (is ?run)
proof -
  have run: ?run
    by (simp add: run_defs)
  have t: "organization ex_cfg = [] \<or> project ex_cfg = [] \<or> pat ex_cfg = []
     \<or> marshal_error (const_env (TransportError ''connection refused'')) (story_payload us1) \<noteq> None
     \<or> new_request_error (const_env (TransportError ''connection refused'')) (story_url ex_cfg) \<noteq> None
     \<or> (\<exists>m. remote (const_env (TransportError ''connection refused'')) (exchanges st0)
                (story_request ex_cfg us1) = TransportError m)
     \<or> (\<exists>code line b. remote (const_env (TransportError ''connection refused'')) (exchanges st0)
                (story_request ex_cfg us1) = Response code line b
           \<and> (\<not> success code \<or> (\<exists>d. b = Undecodable d)
               \<or> (\<exists>m. b = Decoded m \<and> (\<forall>f. map_of m ''id'' \<noteq> Some (JNumber f)))))"
    by (simp add: const_env_def)
  have s: "organization ex_cfg = [] \<or> project ex_cfg = [] \<or> pat ex_cfg = []
     \<or> marshal_error (const_env (Response 401 ''401 Unauthorized''
             (Decoded [(''message'', JString ''Access denied'')]))) (story_payload us1) \<noteq> None
     \<or> new_request_error (const_env (Response 401 ''401 Unauthorized''
             (Decoded [(''message'', JString ''Access denied'')]))) (story_url ex_cfg) \<noteq> None
     \<or> (\<exists>m. remote (const_env (Response 401 ''401 Unauthorized''
             (Decoded [(''message'', JString ''Access denied'')]))) (exchanges st0)
                (story_request ex_cfg us1) = TransportError m)
     \<or> (\<exists>code line b. remote (const_env (Response 401 ''401 Unauthorized''
             (Decoded [(''message'', JString ''Access denied'')]))) (exchanges st0)
                (story_request ex_cfg us1) = Response code line b
           \<and> (\<not> success code \<or> (\<exists>d. b = Undecodable d)
               \<or> (\<exists>m. b = Decoded m \<and> (\<forall>f. map_of m ''id'' \<noteq> Some (JNumber f)))))"
    by (simp add: const_env_def success_def)
  have u: "organization ex_cfg = [] \<or> project ex_cfg = [] \<or> pat ex_cfg = []
     \<or> marshal_error (const_env (Response 200 ''200 OK'' (Undecodable ''unexpected EOF'')))
           (story_payload us1) \<noteq> None
     \<or> new_request_error (const_env (Response 200 ''200 OK'' (Undecodable ''unexpected EOF'')))
           (story_url ex_cfg) \<noteq> None
     \<or> (\<exists>m. remote (const_env (Response 200 ''200 OK'' (Undecodable ''unexpected EOF'')))
                (exchanges st0) (story_request ex_cfg us1) = TransportError m)
     \<or> (\<exists>code line b. remote (const_env (Response 200 ''200 OK'' (Undecodable ''unexpected EOF'')))
                (exchanges st0) (story_request ex_cfg us1) = Response code line b
           \<and> (\<not> success code \<or> (\<exists>d. b = Undecodable d)
               \<or> (\<exists>m. b = Decoded m \<and> (\<forall>f. map_of m ''id'' \<noteq> Some (JNumber f)))))"
    by (simp add: const_env_def)
  show ?thesis
    using failed_parent_no_child_calls [OF t] failed_parent_no_child_calls [OF s]
      failed_parent_no_child_calls [OF u] run
    by simp
qed

text \<open>
  C3. When the parent's creation succeeds (a 200 or 201 reply whose decoded body has a
  numeric \<open>id\<close>), \<open>createUserStory\<close> returns nil whatever the children's calls
  return, the log shows one call of \<open>createTask\<close> for every task, in order, and, when
  building the children's requests does not fail, one request is sent for every task
  whatever the remote replies to the others.
\<close>

theorem siblings_still_attempted:
  assumes "organization cfg \<noteq> []" "project cfg \<noteq> []" "pat cfg \<noteq> []"
    and "marshal_error e (story_payload userStory) = None"
    and "new_request_error e (story_url cfg) = None"
    and "remote e (exchanges st) (story_request cfg userStory) = Response code line (Decoded m)"
    and "success code"
    and "map_of m ''id'' = Some (JNumber f)"
  shows "fst (createUserStory cfg e userStory st) = Returned None
       \<and> task_attempts (logs (snd (createUserStory cfg e userStory st)))
           = task_attempts (logs st) @ map Task.Name (Tasks userStory)
       \<and> ((\<forall>t\<in>set (Tasks userStory).
              marshal_error e (task_payload cfg (go_int f) t userStory) = None)
            \<and> new_request_error e (task_url cfg) = None
          \<longrightarrow> map fst (issued st (snd (createUserStory cfg e userStory st)))
                = story_request cfg userStory
                  # map (\<lambda>t. task_request cfg (go_int f) t userStory) (Tasks userStory))"
proof -
  define st2 where "st2 = log InfoLevel ''User story created successfully''
                           [FString ''name'' (Name userStory)]
      ((log DebugLevel ''Azure DevOps API URL'' [FString ''url'' (story_url cfg)] st)
         \<lparr>exchanges := exchanges st @ [(story_request cfg userStory, Response code line (Decoded m))]\<rparr>)"
  have res: "createUserStory cfg e userStory st
             = (Returned None, create_tasks cfg e (go_int f) userStory (Tasks userStory) st2)"
    using assms by (simp add: createUserStory_def send_def Let_def st2_def)
  have ex2: "exchanges st2 = exchanges st @ [(story_request cfg userStory, Response code line (Decoded m))]"
    by (simp add: st2_def)
  have at2: "task_attempts (logs st2) = task_attempts (logs st)"
    by (simp add: st2_def task_attempts_def log_def)
  have a: "fst (createUserStory cfg e userStory st) = Returned None"
    by (simp add: res)
  have b: "task_attempts (logs (snd (createUserStory cfg e userStory st)))
           = task_attempts (logs st) @ map Task.Name (Tasks userStory)"
    by (simp add: res create_tasks_attempts at2)
  have c: "map fst (issued st (snd (createUserStory cfg e userStory st)))
                = story_request cfg userStory
                  # map (\<lambda>t. task_request cfg (go_int f) t userStory) (Tasks userStory)"
    if ok: "\<forall>t\<in>set (Tasks userStory).
              marshal_error e (task_payload cfg (go_int f) t userStory) = None"
       "new_request_error e (task_url cfg) = None"
  proof -
    from create_tasks_sends [OF assms(1-3) ok, of st2] obtain kids where kids:
      "exchanges (create_tasks cfg e (go_int f) userStory (Tasks userStory) st2) = exchanges st2 @ kids"
      "map fst kids = map (\<lambda>t. task_request cfg (go_int f) t userStory) (Tasks userStory)"
      by blast
    have "exchanges (snd (createUserStory cfg e userStory st))
          = exchanges st @ ((story_request cfg userStory, Response code line (Decoded m)) # kids)"
      using res kids(1) ex2 by simp
    then show ?thesis
      using kids(2) by (simp add: issued_def)
  qed
  from a b c show ?thesis by blast
qed

theorem siblings_still_attempted_witness:
  "fst (createUserStory ex_cfg ex_env us1 st0) = Returned None
   \<and> task_attempts (logs (snd (createUserStory ex_cfg ex_env us1 st0))) = [''T1'', ''T2'', ''T3'']
   \<and> map fst (issued st0 (snd (createUserStory ex_cfg ex_env us1 st0)))
       = [story_request ex_cfg us1, task_request ex_cfg 100 (ex_task ''T1'') us1,
          task_request ex_cfg 100 (ex_task ''T2'') us1, task_request ex_cfg 100 (ex_task ''T3'') us1]
   \<and> map snd (issued st0 (snd (createUserStory ex_cfg ex_env us1 st0)))
       = [Response 200 ''200 OK'' (Decoded [(''id'', JNumber 100)]),
          Response 200 ''200 OK'' (Decoded [(''id'', JNumber 201)]),
          Response 500 ''500 Internal Server Error'' (Undecodable ''EOF''),
          Response 200 ''200 OK'' (Decoded [(''id'', JNumber 203)])]"
  (is "?a \<and> ?b \<and> ?c \<and> ?d")
proof -
  have h: "organization ex_cfg \<noteq> []" "project ex_cfg \<noteq> []" "pat ex_cfg \<noteq> []"
    "marshal_error ex_env (story_payload us1) = None"
    "new_request_error ex_env (story_url ex_cfg) = None"
    "remote ex_env (exchanges st0) (story_request ex_cfg us1)
       = Response 200 ''200 OK'' (Decoded [(''id'', JNumber 100)])"
    "success 200"
    "map_of [(''id'', JNumber 100)] ''id'' = Some (JNumber 100)"
    by (simp_all add: ex_cfg_def ex_env_def ex_remote_def title_def story_request_def post_def
          story_payload_def us1_def ex_story_def success_def)
  have g: "go_int 100 = 100" by (simp add: go_int_def)
  have k: "(\<forall>t\<in>set (Tasks us1). marshal_error ex_env (task_payload ex_cfg (go_int 100) t us1) = None)
           \<and> new_request_error ex_env (task_url ex_cfg) = None"
    by (simp add: ex_env_def)
  have t: "Tasks us1 = [ex_task ''T1'', ex_task ''T2'', ex_task ''T3'']"
    by (simp add: us1_def ex_story_def)
  have n: "map Task.Name (Tasks us1) = [''T1'', ''T2'', ''T3'']" "task_attempts (logs st0) = []"
    by (simp_all add: t ex_task_def st0_def task_attempts_def)
  have abc: "?a \<and> ?b \<and> ?c"
    using siblings_still_attempted [OF h] k by (simp add: g n t ex_task_def)
  have d: ?d
    by (simp add: run_defs)
  from abc d show ?thesis by simp
qed

text \<open>
  C4. When the organization, the project or the credential is empty, creating a parent
  and creating a child both return the configuration error at once and leave the state
  as it was: no request is sent and nothing is logged.
\<close>

theorem missing_configuration_no_request:
  assumes "organization cfg = [] \<or> project cfg = [] \<or> pat cfg = []"
  shows "createUserStory cfg e userStory st = (Returned (Some MissingConfiguration), st)
       \<and> createTask cfg e parentID task userStory st = (Some MissingConfiguration, st)"
  using assms by (simp add: createUserStory_def createTask_def)

theorem missing_configuration_no_request_witness:
  "createUserStory (ex_cfg\<lparr>pat := []\<rparr>) ex_env (ex_story ''US1'' ''TeamA'' [ex_task ''T1'']) st0
     = (Returned (Some MissingConfiguration), st0)
   \<and> createTask (ex_cfg\<lparr>pat := []\<rparr>) ex_env 100 (ex_task ''T1'') (ex_story ''US1'' ''TeamA'' [ex_task ''T1'']) st0
     = (Some MissingConfiguration, st0)
   \<and> exchanges st0 = []"
  using missing_configuration_no_request [of "ex_cfg\<lparr>pat := []\<rparr>" ex_env "ex_story ''US1'' ''TeamA'' [ex_task ''T1'']" st0 100 "ex_task ''T1''"]
  by (simp add: ex_cfg_def st0_def)

text \<open>
  C5. The claim asks for the tag operation in every payload. On a story with one task
  the story's request carries \<open>/fields/System.Tags\<close> with \<open>system_automated\<close>, and
  the task's request carries no operation at that path: in the payload of
  \<open>createTask\<close> the relation stands where the payload of \<open>createUserStory\<close> has the
  tag.
\<close>

theorem task_request_lacks_tag:
  "map (\<lambda>x. values_at ''/fields/System.Tags'' (payload (fst x)))
     (issued st0 (snd (createUserStory ex_cfg ex_env
        (ex_story ''US1'' ''TeamA'' [ex_task ''T1'']) st0)))
   = [[VString ''system_automated''], []]
   \<and> map (\<lambda>x. map path (payload (fst x)))
     (issued st0 (snd (createUserStory ex_cfg ex_env
        (ex_story ''US1'' ''TeamA'' [ex_task ''T1'']) st0)))
   = [[''/fields/System.Title'', ''/fields/System.Description'', ''/fields/System.AssignedTo'',
       ''/fields/Microsoft.VSTS.Common.Priority'', ''/fields/System.State'',
       ''/fields/System.Tags'', ''/fields/System.AreaPath''],
      [''/fields/System.Title'', ''/fields/System.Description'', ''/fields/System.AssignedTo'',
       ''/fields/Microsoft.VSTS.Common.Priority'', ''/fields/System.State'',
       ''/relations/-'', ''/fields/System.AreaPath'']]"
  by (simp add: run_defs values_at_def)

text \<open>
  C6, as the claim states it, fails: a parent's creation answered 401 with an
  undecodable body returns the parse error, whose text does not contain the status line.
\<close>

theorem error_body_not_surfaced_counterexample:
  "fst (createUserStory ex_cfg
          (const_env (Response 401 ''401 Unauthorized'' (Undecodable ''unexpected EOF''))) us1 st0)
     = Returned (Some (ParseResponseFailed ''unexpected EOF''))
   \<and> error_text (ParseResponseFailed ''unexpected EOF'') = ''failed to parse response: unexpected EOF''
   \<and> \<not> sublist ''401 Unauthorized'' (error_text (ParseResponseFailed ''unexpected EOF''))"
  by (simp add: run_defs sublist_Cons_right prefix_Cons)

text \<open>
  C6, amended. On a status other than 200 and 201, \<open>createUserStory\<close> returns an error
  carrying the status line and the \<open>message\<close> of the decoded body when that field is a
  string; when the body cannot be decoded it returns the parse error wrapping the decode
  failure, without the status line. \<open>createTask\<close> returns an error carrying the status
  line.
\<close>

theorem non_success_status_errors:
  assumes "organization cfg \<noteq> []" "project cfg \<noteq> []" "pat cfg \<noteq> []"
    and "\<not> success code"
  shows "(marshal_error e (story_payload userStory) = None
          \<and> new_request_error e (story_url cfg) = None
          \<and> remote e (exchanges st) (story_request cfg userStory) = Response code line (Decoded m)
          \<and> map_of m ''message'' = Some (JString msg)
          \<longrightarrow> fst (createUserStory cfg e userStory st)
                = Returned (Some (CreateUserStoryFailed line msg)))
       \<and> (marshal_error e (story_payload userStory) = None
          \<and> new_request_error e (story_url cfg) = None
          \<and> remote e (exchanges st) (story_request cfg userStory) = Response code line (Undecodable d)
          \<longrightarrow> fst (createUserStory cfg e userStory st) = Returned (Some (ParseResponseFailed d)))
       \<and> (marshal_error e (task_payload cfg parentID task userStory) = None
          \<and> new_request_error e (task_url cfg) = None
          \<and> remote e (exchanges st) (task_request cfg parentID task userStory) = Response code line b
          \<longrightarrow> fst (createTask cfg e parentID task userStory st) = Some (CreateTaskFailed line))
       \<and> error_text (CreateUserStoryFailed line msg)
           = ''failed to create user story, status: '' @ line @ '' with message: '' @ msg
       \<and> error_text (ParseResponseFailed d) = ''failed to parse response: '' @ d
       \<and> wrapped (ParseResponseFailed d) = Some d
       \<and> error_text (CreateTaskFailed line) = ''failed to create task, status: '' @ line"
  using assms
  by (simp add: createUserStory_def createTask_def send_def Let_def)

theorem non_success_status_errors_witness:
  "fst (createUserStory ex_cfg
          (const_env (Response 401 ''401 Unauthorized'' (Decoded [(''message'', JString ''Access denied'')])))
          us1 st0)
     = Returned (Some (CreateUserStoryFailed ''401 Unauthorized'' ''Access denied''))
   \<and> error_text (CreateUserStoryFailed ''401 Unauthorized'' ''Access denied'')
     = ''failed to create user story, status: 401 Unauthorized with message: Access denied''
   \<and> fst (createUserStory ex_cfg
          (const_env (Response 401 ''401 Unauthorized'' (Undecodable ''unexpected EOF''))) us1 st0)
     = Returned (Some (ParseResponseFailed ''unexpected EOF''))
   \<and> wrapped (ParseResponseFailed ''unexpected EOF'') = Some ''unexpected EOF''
   \<and> fst (createTask ex_cfg
          (const_env (Response 401 ''401 Unauthorized'' (Undecodable ''unexpected EOF'')))
          100 (ex_task ''T1'') us1 st0)
     = Some (CreateTaskFailed ''401 Unauthorized'')
   \<and> error_text (CreateTaskFailed ''401 Unauthorized'') = ''failed to create task, status: 401 Unauthorized''"
proof -
  have h: "organization ex_cfg \<noteq> []" "project ex_cfg \<noteq> []" "pat ex_cfg \<noteq> []" "\<not> success 401"
    by (simp_all add: ex_cfg_def success_def)
  show ?thesis
    using non_success_status_errors [OF h,
        of "const_env (Response 401 ''401 Unauthorized'' (Decoded [(''message'', JString ''Access denied'')]))"
           us1 st0 "''401 Unauthorized''" "[(''message'', JString ''Access denied'')]"
           "''Access denied''" "''unexpected EOF''" 100 "ex_task ''T1''"
           "Decoded [(''message'', JString ''Access denied'')]"]
      non_success_status_errors [OF h,
        of "const_env (Response 401 ''401 Unauthorized'' (Undecodable ''unexpected EOF''))"
           us1 st0 "''401 Unauthorized''" "[]"
           "''Access denied''" "''unexpected EOF''" 100 "ex_task ''T1''"
           "Undecodable ''unexpected EOF''"]
    by (simp add: const_env_def)
qed

text \<open>
  C7. The claim asks for an error when a 200 or 201 reply has no numeric \<open>id\<close>. On a
  200 reply with an empty object, and on one whose \<open>id\<close> is a string, the type
  assertion of line 168 panics; in the batch the panic ends the run after the first
  story's request, and the second story is never visited.
\<close>

theorem missing_id_panics:
  "fst (createUserStory ex_cfg (const_env (Response 200 ''200 OK'' (Decoded []))) us1 st0)
     = Panicked ''interface conversion: interface {} is nil, not float64''
   \<and> fst (createUserStory ex_cfg
            (const_env (Response 200 ''200 OK'' (Decoded [(''id'', JString ''100'')]))) us1 st0)
     = Panicked ''interface conversion: interface {} is string, not float64''
   \<and> fst (main_loop ex_cfg (const_env (Response 200 ''200 OK'' (Decoded []))) [us1, us2] st0)
     = Some ''interface conversion: interface {} is nil, not float64''
   \<and> map fst (exchanges (snd (main_loop ex_cfg (const_env (Response 200 ''200 OK'' (Decoded [])))
        [us1, us2] st0)))
     = [story_request ex_cfg us1]"
  by (simp add: run_defs main_loop_def assertion_panic_def)

text \<open>
  C8. Every request \<open>createUserStory\<close> sends to the task URL carries exactly one
  operation at \<open>/fields/System.AreaPath\<close>, and its value is the area of the story (the
  record \<open>Task\<close> has no area field).
\<close>

theorem children_carry_parent_area:
  "\<forall>x\<in>set (issued st (snd (createUserStory cfg e userStory st))).
      url (fst x) = task_url cfg
      \<longrightarrow> values_at ''/fields/System.AreaPath'' (payload (fst x)) = [VString (Area userStory)]"
proof -
  from createUserStory_exchanges [of cfg e userStory st] obtain seg where seg:
    "exchanges (snd (createUserStory cfg e userStory st)) = exchanges st @ seg"
    "story_segment cfg userStory seg"
    by blast
  have area_task: "values_at ''/fields/System.AreaPath''
                     (payload (task_request cfg parentID t userStory)) = [VString (Area userStory)]"
    for parentID t
    by (simp add: values_at_def task_request_def post_def task_payload_def)
  have area_story: "values_at ''/fields/System.AreaPath''
                     (payload (story_request cfg userStory)) = [VString (Area userStory)]"
    by (simp add: values_at_def story_request_def post_def story_payload_def)
  have "\<forall>x\<in>set seg. values_at ''/fields/System.AreaPath'' (payload (fst x)) = [VString (Area userStory)]"
  proof
    fix x assume x: "x \<in> set seg"
    then obtain q r kids where sg: "seg = (q, r) # kids"
      by (cases seg) auto
    show "values_at ''/fields/System.AreaPath'' (payload (fst x)) = [VString (Area userStory)]"
    proof (cases "x = (q, r)")
      case True
      then show ?thesis
        using seg(2) sg area_story by (simp add: story_segment_def)
    next
      case False
      then have "x \<in> set kids" using x sg by simp
      then obtain parentID where "child_of cfg userStory parentID (fst x)"
        using seg(2) sg
        by (auto simp: story_segment_def list_all_iff split: option.splits)
      then obtain t where "fst x = task_request cfg parentID t userStory"
        by (auto simp: child_of_def)
      then show ?thesis by (simp add: area_task)
    qed
  qed
  then show ?thesis
    using seg(1) by simp
qed

theorem children_carry_parent_area_witness:
  "map (\<lambda>x. values_at ''/fields/System.AreaPath'' (payload (fst x)))
     (filter (\<lambda>x. url (fst x) = task_url ex_cfg)
        (issued st0 (snd (createUserStory ex_cfg ex_env us1 st0))))
   = [[VString ''TeamA''], [VString ''TeamA''], [VString ''TeamA'']]
   \<and> Area us1 = ''TeamA''"
  (is ?run)
proof -
  have run: ?run
    by (simp add: run_defs values_at_def)
  show ?thesis
    using children_carry_parent_area [of st0 ex_cfg ex_env us1] run by simp
qed

text \<open>
  C9. Reading the title, description, assignee, priority and state operations back out
  of the payload of a story or of a task gives the record's name, description, owner,
  priority and state unchanged.
\<close>

theorem payload_preserves_fields:
  "read_back (story_payload userStory)
     = Some (Name userStory, Description userStory, Owner userStory,
             Priority userStory, State userStory)
   \<and> read_back (task_payload cfg parentID task userStory)
     = Some (Task.Name task, Task.Description task, Task.Owner task,
             Task.Priority task, Task.State task)"
  by (simp add: read_back_def values_at_def story_payload_def task_payload_def)

text \<open>
  C10. Two batches that agree once \<open>Type\<close> (of stories and tasks) and \<open>Estimate\<close>
  (of tasks) are blanked give the same run: the same result, the same requests and
  replies, the same log. Every request goes to the story URL or to the task URL, which
  depend on the configuration alone.
\<close>

theorem type_and_estimate_not_sent:
  assumes "map erase_story userStories = map erase_story userStories'"
  shows "main_loop cfg e userStories st = main_loop cfg e userStories' st
       \<and> map fst (issued st (snd (main_loop cfg e userStories st)))
         = map fst (issued st (snd (main_loop cfg e userStories' st)))
       \<and> (\<forall>x\<in>set (issued st (snd (main_loop cfg e userStories st))).
             url (fst x) = story_url cfg \<or> url (fst x) = task_url cfg)"
proof -
  have "main_loop cfg e userStories st = main_loop cfg e (map erase_story userStories) st"
    by (simp add: main_loop_erase)
  also have "\<dots> = main_loop cfg e (map erase_story userStories') st"
    using assms by simp
  also have "\<dots> = main_loop cfg e userStories' st"
    by (simp add: main_loop_erase)
  finally have eq: "main_loop cfg e userStories st = main_loop cfg e userStories' st" .
  then show ?thesis
    using issued_urls [of _ st cfg e userStories] by simp
qed

theorem type_and_estimate_not_sent_witness:
  "map erase_story [us1, us2] = map erase_story [us1_retyped, us2]
   \<and> us1 \<noteq> us1_retyped
   \<and> main_loop ex_cfg ex_env [us1, us2] st0 = main_loop ex_cfg ex_env [us1_retyped, us2] st0
   \<and> map (\<lambda>x. url (fst x)) (issued st0 (snd (main_loop ex_cfg ex_env [us1_retyped, us2] st0)))
     = [story_url ex_cfg, task_url ex_cfg, task_url ex_cfg, task_url ex_cfg,
        story_url ex_cfg, task_url ex_cfg]"
  (is "?h \<and> ?d \<and> ?eq \<and> ?urls")
proof -
  have h: ?h
    by (simp add: us1_retyped_def us1_def ex_story_def ex_task_def erase_story_def erase_task_def)
  have d: ?d
    by (simp add: us1_retyped_def us1_def ex_story_def)
  have urls: ?urls
    by (simp add: run_defs main_loop_def us1_retyped_def)
  show ?thesis
    using type_and_estimate_not_sent [OF h, of ex_cfg ex_env st0] h d urls by simp
qed

end
